theory Spec2Isabelle
  imports
    Main
    "HOL-Library.Char_ord"
    "HOL-Library.List_Lexorder"
    "HOL-Library.Product_Lexorder"
begin

section \<open>Data model\<close>

text \<open>
  The rows of the two tables, as \<^verbatim>\<open>types/supabase\<close> declares them. Every column is
  a string in the TypeScript interfaces, timestamps included; strings are compared as
  text. The three attachment columns are optional. Field names carry a prefix where two
  interfaces share a name (\<^verbatim>\<open>id\<close>, \<^verbatim>\<open>created_at\<close>) or where the name is a
  constant of HOL.
\<close>

record PublicMessage =
  msg_id :: string
  msg_room_id :: string
  sender_name :: string
  content :: string
  msg_created_at :: string
  has_attachment :: "bool option"
  attachment_path :: "string option"
  attachment_type :: "string option"

record ChatRoom =
  room_id :: string
  room_name :: string
  room_slug :: string
  room_created_at :: string

definition DEFAULT_ROOM_NAME :: string where
  "DEFAULT_ROOM_NAME = ''Public Chat Room''"

definition DEFAULT_ROOM_SLUG :: string where
  "DEFAULT_ROOM_SLUG = ''public''"

text \<open>The React state of the \<^verbatim>\<open>Chat\<close> component (the four \<^verbatim>\<open>useState\<close> cells).\<close>

record chat_state =
  username :: string
  messages :: "PublicMessage list"
  isLoading :: bool
  defaultRoom :: "ChatRoom option"

section \<open>The change-feed handler\<close>

text \<open>
  The payload of a \<^verbatim>\<open>postgres_changes\<close> event. The subscription listens to every
  event (\<^verbatim>\<open>event: "*"\<close>), so updates arrive as well; the handler has a branch for
  \<^verbatim>\<open>INSERT\<close> (carrying \<^verbatim>\<open>payload.new\<close>) and one for \<^verbatim>\<open>DELETE\<close> (carrying
  \<^verbatim>\<open>payload.old.id\<close>) and ignores the rest.
\<close>

datatype payload =
    INSERT PublicMessage
  | DELETE string
  | UPDATE PublicMessage

fun postgres_changes :: "payload \<Rightarrow> chat_state \<Rightarrow> chat_state" where
  "postgres_changes (INSERT newMessage) s = s\<lparr>messages := messages s @ [newMessage]\<rparr>"
| "postgres_changes (DELETE deletedMessageId) s =
     s\<lparr>messages := filter (\<lambda>msg. msg_id msg \<noteq> deletedMessageId) (messages s)\<rparr>"
| "postgres_changes (UPDATE _) s = s"

text \<open>The Store operations of the specification are the branches of the handler.\<close>

definition applyInsert :: "PublicMessage \<Rightarrow> chat_state \<Rightarrow> chat_state" where
  "applyInsert m = postgres_changes (INSERT m)"

definition applyDelete :: "string \<Rightarrow> chat_state \<Rightarrow> chat_state" where
  "applyDelete i = postgres_changes (DELETE i)"

definition applyInserts :: "PublicMessage list \<Rightarrow> chat_state \<Rightarrow> chat_state" where
  "applyInserts ms s = foldl (\<lambda>s' m. applyInsert m s') s ms"

definition snapshot :: "chat_state \<Rightarrow> PublicMessage list" where
  "snapshot s = messages s"

text \<open>\<^verbatim>\<open>setMessages(messageData)\<close>: the history replaces the list.\<close>

definition seed :: "PublicMessage list \<Rightarrow> chat_state \<Rightarrow> chat_state" where
  "seed ms s = s\<lparr>messages := ms\<rparr>"

text \<open>The sort key of the specification's snapshot order, compared lexicographically.\<close>

definition sort_key_of :: "PublicMessage \<Rightarrow> string \<times> string" where
  "sort_key_of m = (msg_created_at m, msg_id m)"

definition mk_msg :: "string \<Rightarrow> string \<Rightarrow> PublicMessage" where
  "mk_msg i t = \<lparr>msg_id = i, msg_room_id = ''r1'', sender_name = ''ann'', content = ''hi'',
     msg_created_at = t, has_attachment = None, attachment_path = None,
     attachment_type = None\<rparr>"

definition empty_chat :: chat_state where
  "empty_chat = \<lparr>username = ''ann'', messages = [], isLoading = False, defaultRoom = None\<rparr>"

section \<open>The backing store and the effects of a handler\<close>

text \<open>
  Modelled from the spec: the hosted Room store of section 6 (\<^verbatim>\<open>find\<close>,
  \<^verbatim>\<open>create\<close>, \<^verbatim>\<open>listMessages\<close> ordered by creation time, \<^verbatim>\<open>insertMessage\<close>,
  \<^verbatim>\<open>deleteMessage\<close>), which the client reaches through the query builder and
  which has no code in the repository. It is two tables; a filter \<^verbatim>\<open>.eq(col, v)\<close>
  keeps the rows whose column equals \<open>v\<close>, \<^verbatim>\<open>.order('created_at')\<close> sorts ascending,
  an insert adds one row whose id and creation time the store chooses (they are
  parameters here), a delete drops the rows the filter selects.
\<close>

record server =
  chat_rooms :: "ChatRoom list"
  public_messages :: "PublicMessage list"

definition select_rooms :: "string \<Rightarrow> server \<Rightarrow> ChatRoom list" where
  "select_rooms slug sv = filter (\<lambda>r. room_slug r = slug) (chat_rooms sv)"

definition insert_room :: "string \<Rightarrow> string \<Rightarrow> string \<Rightarrow> string \<Rightarrow> server \<Rightarrow> ChatRoom \<times> server" where
  "insert_room name slug new_id now sv =
     (let row = \<lparr>room_id = new_id, room_name = name, room_slug = slug, room_created_at = now\<rparr>
      in (row, sv\<lparr>chat_rooms := chat_rooms sv @ [row]\<rparr>))"

definition select_messages :: "string \<Rightarrow> server \<Rightarrow> PublicMessage list" where
  "select_messages rid sv =
     sort_key msg_created_at (filter (\<lambda>m. msg_room_id m = rid) (public_messages sv))"

definition delete_message :: "string \<Rightarrow> server \<Rightarrow> server" where
  "delete_message messageId sv =
     sv\<lparr>public_messages := filter (\<lambda>m. msg_id m \<noteq> messageId) (public_messages sv)\<rparr>"

text \<open>The object \<^verbatim>\<open>messageData\<close> that \<^verbatim>\<open>sendMessage\<close> submits.\<close>

record message_data =
  data_room_id :: string
  data_sender_name :: string
  data_content :: string
  data_has_attachment :: "bool option"
  data_attachment_path :: "string option"
  data_attachment_type :: "string option"

definition insert_message :: "message_data \<Rightarrow> string \<Rightarrow> string \<Rightarrow> server \<Rightarrow> PublicMessage \<times> server" where
  "insert_message d new_id now sv =
     (let row = \<lparr>msg_id = new_id, msg_room_id = data_room_id d,
                 sender_name = data_sender_name d, content = data_content d,
                 msg_created_at = now, has_attachment = data_has_attachment d,
                 attachment_path = data_attachment_path d,
                 attachment_type = data_attachment_type d\<rparr>
      in (row, sv\<lparr>public_messages := public_messages sv @ [row]\<rparr>))"

text \<open>
  A request may fail: the query builder then answers \<^verbatim>\<open>{data: null, error}\<close>. Which
  requests fail is an input of each handler. A file is what the handlers read of a
  browser \<^verbatim>\<open>File\<close>: name, size in bytes and media type.
\<close>

datatype error = Error string

record File =
  file_name :: string
  file_size :: nat
  file_type :: string

text \<open>
  What a handler does besides updating component state: the requests it sends, in
  order, and the toasts it shows (title, description, whether the variant is
  \<^verbatim>\<open>destructive\<close>).
\<close>

datatype request =
    SelectRooms string
  | InsertRoom string string
  | SelectMessages string
  | Subscribe string
  | InsertMessage message_data
  | DeleteMessage string
  | Upload string File

datatype toast = Toast string string bool

record world =
  chat :: chat_state
  srv :: server
  requests :: "request list"
  toasts :: "toast list"

definition send_request :: "request \<Rightarrow> world \<Rightarrow> world" where
  "send_request r w = w\<lparr>requests := requests w @ [r]\<rparr>"

definition show_toast :: "toast \<Rightarrow> world \<Rightarrow> world" where
  "show_toast t w = w\<lparr>toasts := toasts w @ [t]\<rparr>"

definition setIsLoading :: "bool \<Rightarrow> world \<Rightarrow> world" where
  "setIsLoading b w = w\<lparr>chat := (chat w)\<lparr>isLoading := b\<rparr>\<rparr>"

definition setDefaultRoom :: "ChatRoom option \<Rightarrow> world \<Rightarrow> world" where
  "setDefaultRoom r w = w\<lparr>chat := (chat w)\<lparr>defaultRoom := r\<rparr>\<rparr>"

definition setMessages :: "PublicMessage list \<Rightarrow> world \<Rightarrow> world" where
  "setMessages ms w = w\<lparr>chat := (chat w)\<lparr>messages := ms\<rparr>\<rparr>"

section \<open>Joining: room resolution, history, subscription\<close>

text \<open>
  \<^verbatim>\<open>initializeChat\<close>. Its inputs besides the state: which of its three requests fail,
  and the id and creation time the store gives a room it creates.
\<close>

record init_net =
  roomError :: "error option"
  createError :: "error option"
  messageError :: "error option"
  new_room_id :: string
  new_room_created_at :: string

text \<open>The \<^verbatim>\<open>catch\<close> block followed by \<^verbatim>\<open>finally\<close>.\<close>

definition init_failed :: "world \<Rightarrow> world" where
  "init_failed w =
     setIsLoading False
       (show_toast (Toast ''Error'' ''Failed to load the chat. Please try again.'' True) w)"

text \<open>From \<^verbatim>\<open>setDefaultRoom(room)\<close> to the end of the \<^verbatim>\<open>try\<close> block.\<close>

definition load_and_subscribe :: "init_net \<Rightarrow> ChatRoom \<Rightarrow> world \<Rightarrow> world" where
  "load_and_subscribe net room w =
     (let w1 = send_request (SelectMessages (room_id room)) (setDefaultRoom (Some room) w)
      in case messageError net of
           Some e \<Rightarrow> init_failed w1
         | None \<Rightarrow>
             setIsLoading False
               (send_request (Subscribe (room_id room))
                 (setMessages (select_messages (room_id room) (srv w1)) w1)))"

definition initializeChat :: "init_net \<Rightarrow> world \<Rightarrow> world" where
  "initializeChat net w =
     (if username (chat w) = [] then w
      else
        let w1 = send_request (SelectRooms DEFAULT_ROOM_SLUG) (setIsLoading True w)
        in case roomError net of
             Some e \<Rightarrow> init_failed w1
           | None \<Rightarrow>
               (case select_rooms DEFAULT_ROOM_SLUG (srv w1) of
                  [] \<Rightarrow>
                    (let w2 = send_request (InsertRoom DEFAULT_ROOM_NAME DEFAULT_ROOM_SLUG) w1
                     in case createError net of
                          Some e \<Rightarrow> init_failed w2
                        | None \<Rightarrow>
                            (case insert_room DEFAULT_ROOM_NAME DEFAULT_ROOM_SLUG
                                    (new_room_id net) (new_room_created_at net) (srv w2) of
                               (newRoom, sv) \<Rightarrow> load_and_subscribe net newRoom (w2\<lparr>srv := sv\<rparr>)))
                | room # _ \<Rightarrow> load_and_subscribe net room w1))"

text \<open>The prop \<^verbatim>\<open>disabled={isLoading || !defaultRoom}\<close> that the chat passes to its input.\<close>

definition input_disabled :: "chat_state \<Rightarrow> bool" where
  "input_disabled s = (isLoading s \<or> defaultRoom s = None)"

section \<open>Sending\<close>

text \<open>
  \<^verbatim>\<open>String.prototype.trim\<close> on strings of 8-bit characters: it strips white space and
  line terminators from both ends (tab, line feed, vertical tab, form feed, carriage
  return, space, no-break space). A trimmed string is falsy exactly when it is empty.
\<close>

definition is_ws :: "char \<Rightarrow> bool" where
  "is_ws c = (c \<in> set [CHR 0x09, CHR 0x0A, CHR 0x0B, CHR 0x0C, CHR 0x0D, CHR '' '', CHR 0xA0])"

definition trim :: "string \<Rightarrow> string" where
  "trim s = rev (dropWhile is_ws (rev (dropWhile is_ws s)))"

record attachmentInfo =
  path :: string
  type :: string

text \<open>
  \<^verbatim>\<open>sendMessage\<close> either returns or re-throws the error of the insert. Its inputs
  besides the state: whether the insert fails, and the id and creation time the store
  gives the new row.
\<close>

datatype outcome = Returned | Threw error

record send_net =
  insertError :: "error option"
  new_msg_id :: string
  new_msg_created_at :: string

definition sendMessage :: "send_net \<Rightarrow> string \<Rightarrow> attachmentInfo option \<Rightarrow> world \<Rightarrow> outcome \<times> world" where
  "sendMessage net text info w =
     (if trim text = [] \<and> info = None then (Returned, w)
      else case defaultRoom (chat w) of
        None \<Rightarrow> (Returned, w)
      | Some room \<Rightarrow>
          (let messageData =
                 (case info of
                    None \<Rightarrow>
                      \<lparr>data_room_id = room_id room, data_sender_name = username (chat w),
                       data_content = text, data_has_attachment = None,
                       data_attachment_path = None, data_attachment_type = None\<rparr>
                  | Some a \<Rightarrow>
                      \<lparr>data_room_id = room_id room, data_sender_name = username (chat w),
                       data_content = text, data_has_attachment = Some True,
                       data_attachment_path = Some (path a),
                       data_attachment_type = Some (type a)\<rparr>);
               w1 = send_request (InsertMessage messageData) w
           in case insertError net of
                Some e \<Rightarrow>
                  (Threw e,
                   show_toast (Toast ''Error'' ''Failed to send your message. Please try again.'' True) w1)
              | None \<Rightarrow>
                  (case insert_message messageData (new_msg_id net) (new_msg_created_at net) (srv w1) of
                     (row, sv) \<Rightarrow> (Returned, w1\<lparr>srv := sv\<rparr>))))"

section \<open>Deleting\<close>

text \<open>
  \<^verbatim>\<open>deleteMessage\<close>. The refresh filters on \<^verbatim>\<open>defaultRoom?.id\<close>, which the query
  builder renders as the text \<^verbatim>\<open>undefined\<close> when no room is set.
\<close>

record delete_net =
  deleteError :: "error option"
  refreshError :: "error option"

definition refresh_room_id :: "world \<Rightarrow> string" where
  "refresh_room_id w =
     (case defaultRoom (chat w) of None \<Rightarrow> ''undefined'' | Some room \<Rightarrow> room_id room)"

definition deleteMessage :: "delete_net \<Rightarrow> string \<Rightarrow> world \<Rightarrow> world" where
  "deleteMessage net messageId w =
     (let w1 = send_request (DeleteMessage messageId) w
      in case deleteError net of
           Some e \<Rightarrow>
             show_toast (Toast ''Error'' ''Failed to delete the message. Please try again.'' True) w1
         | None \<Rightarrow>
             (let w2 = w1\<lparr>srv := delete_message messageId (srv w1)\<rparr>;
                  w3 = setMessages (filter (\<lambda>msg. msg_id msg \<noteq> messageId) (messages (chat w2))) w2;
                  rid = refresh_room_id w3;
                  w4 = send_request (SelectMessages rid) w3;
                  w5 = (case refreshError net of
                          None \<Rightarrow> setMessages (select_messages rid (srv w4)) w4
                        | Some e \<Rightarrow> w4)
              in show_toast (Toast ''Success'' ''Message deleted successfully'' False) w5))"

section \<open>The message input\<close>

text \<open>The React state of the \<^verbatim>\<open>ChatInput\<close> component.\<close>

record input_state =
  message :: string
  isSubmitting :: bool
  isRecording :: bool
  isProcessing :: bool
  isUploading :: bool
  attachment :: "File option"

text \<open>
  \<^verbatim>\<open>handleSubmit\<close>. The component receives \<^verbatim>\<open>onSendMessage\<close> and \<^verbatim>\<open>disabled\<close>
  as props. Its inputs besides the state: the decimal text of \<^verbatim>\<open>Date.now()\<close>, and
  the answer of the content store to the upload, an error or the stored path.
\<close>

record submit_net =
  now :: string
  uploadResult :: "error + string"

text \<open>
  From \<^verbatim>\<open>await onSendMessage(message.trim(), attachmentInfo)\<close> to the end: the draft
  and the pending attachment are cleared when the call returns, kept when it throws;
  \<^verbatim>\<open>finally\<close> resets \<^verbatim>\<open>isSubmitting\<close>.
\<close>

definition submit_message ::
  "(string \<Rightarrow> attachmentInfo option \<Rightarrow> world \<Rightarrow> outcome \<times> world) \<Rightarrow>
   attachmentInfo option \<Rightarrow> input_state \<times> world \<Rightarrow> input_state \<times> world" where
  "submit_message onSendMessage info iw =
     (case iw of (i, w) \<Rightarrow>
        (case onSendMessage (trim (message i)) info w of
           (Returned, w') \<Rightarrow> (i\<lparr>message := [], attachment := None, isSubmitting := False\<rparr>, w')
         | (Threw e, w') \<Rightarrow> (i\<lparr>isSubmitting := False\<rparr>, w')))"

definition handleSubmit ::
  "(string \<Rightarrow> attachmentInfo option \<Rightarrow> world \<Rightarrow> outcome \<times> world) \<Rightarrow> bool \<Rightarrow>
   submit_net \<Rightarrow> input_state \<times> world \<Rightarrow> input_state \<times> world" where
  "handleSubmit onSendMessage disabled net iw =
     (case iw of (i, w) \<Rightarrow>
        if (trim (message i) = [] \<and> attachment i = None) \<or> isSubmitting i \<or> disabled
        then (i, w)
        else
          (let i1 = i\<lparr>isSubmitting := True\<rparr>
           in case attachment i of
                None \<Rightarrow> submit_message onSendMessage None (i1, w)
              | Some f \<Rightarrow>
                  (let i2 = i1\<lparr>isUploading := True\<rparr>;
                       filePath = now net @ ''-'' @ file_name f;
                       w1 = send_request (Upload filePath f) w
                   in case uploadResult net of
                        Inl e \<Rightarrow>
                          (i2\<lparr>isSubmitting := False, isUploading := False\<rparr>,
                           show_toast
                             (Toast ''Upload failed''
                                ''Failed to upload attachment. Please try again.'' True) w1)
                      | Inr p \<Rightarrow>
                          submit_message onSendMessage
                            (Some \<lparr>path = p, type = file_type f\<rparr>)
                            (i2\<lparr>isUploading := False\<rparr>,
                             show_toast
                               (Toast ''File uploaded''
                                  ''Your attachment has been uploaded successfully'' False) w1))))"

text \<open>The input as the chat mounts it: \<^verbatim>\<open>onSendMessage={sendMessage}\<close>.\<close>

definition send ::
  "send_net \<Rightarrow> submit_net \<Rightarrow> input_state \<times> world \<Rightarrow> input_state \<times> world" where
  "send snet net iw = handleSubmit (sendMessage snet) (input_disabled (chat (snd iw))) net iw"

text \<open>
  \<^verbatim>\<open>processAudio\<close>. The recogniser throws, or answers with an array of chunks (each
  with its \<^verbatim>\<open>text\<close>), with one object that has a \<^verbatim>\<open>text\<close>, or with something else.
\<close>

datatype asr_result =
    ResultArray "string list"
  | ResultObject string
  | ResultOther

definition transcribedText :: "asr_result \<Rightarrow> string" where
  "transcribedText result =
     (case result of
        ResultArray [] \<Rightarrow> []
      | ResultArray (t # _) \<Rightarrow> (if t \<noteq> [] then t else [])
      | ResultObject t \<Rightarrow> t
      | ResultOther \<Rightarrow> [])"

definition processAudio :: "error + asr_result \<Rightarrow> input_state \<times> world \<Rightarrow> input_state \<times> world" where
  "processAudio answer iw =
     (case iw of (i, w) \<Rightarrow>
        (let w1 = show_toast (Toast ''Processing'' ''Converting your speech to text...'' False) w
         in case answer of
              Inl e \<Rightarrow>
                (i, show_toast
                      (Toast ''Error'' ''Speech recognition failed. Please try again.'' True) w1)
            | Inr result \<Rightarrow>
                (if transcribedText result \<noteq> []
                 then (i\<lparr>message := message i @ (if message i \<noteq> [] then '' '' else []) @
                                       transcribedText result\<rparr>,
                       show_toast (Toast ''Success'' ''Speech transcribed successfully'' False) w1)
                 else (i, show_toast
                            (Toast ''No speech detected''
                               ''Please try again and speak clearly'' False) w1))))"

text \<open>\<^verbatim>\<open>handleFileInputChange\<close>, on the first file of the input, if there is one.\<close>

definition allowedTypes :: "string list" where
  "allowedTypes =
     [''image/jpeg'', ''image/png'', ''image/gif'', ''image/webp'',
      ''application/pdf'',
      ''text/plain'',
      ''application/msword'',
      ''application/vnd.openxmlformats-officedocument.wordprocessingml.document'']"

definition handleFileInputChange :: "File option \<Rightarrow> input_state \<times> world \<Rightarrow> input_state \<times> world" where
  "handleFileInputChange chosen iw =
     (case iw of (i, w) \<Rightarrow>
        (case chosen of
           None \<Rightarrow> (i, w)
         | Some file \<Rightarrow>
             if file_size file > 10 * 1024 * 1024
             then (i, show_toast
                        (Toast ''File too large'' ''Please select a file smaller than 10MB'' True) w)
             else if file_type file \<notin> set allowedTypes
             then (i, show_toast
                        (Toast ''Invalid file type''
                           ''Please select an image, PDF, text, or document file'' True) w)
             else (i\<lparr>attachment := Some file\<rparr>, w)))"

section \<open>Concrete states\<close>

definition empty_server :: server where
  "empty_server = \<lparr>chat_rooms = [], public_messages = []\<rparr>"

definition public_room :: ChatRoom where
  "public_room = \<lparr>room_id = ''r1'', room_name = ''Public Chat Room'', room_slug = ''public'',
     room_created_at = ''2024-05-01T09:00:00Z''\<rparr>"

definition new_world :: "string \<Rightarrow> server \<Rightarrow> world" where
  "new_world name sv =
     \<lparr>chat = \<lparr>username = name, messages = [], isLoading = True, defaultRoom = None\<rparr>,
      srv = sv, requests = [], toasts = []\<rparr>"

definition joined_world :: world where
  "joined_world =
     \<lparr>chat = \<lparr>username = ''ann'',
              messages = [mk_msg ''1'' ''2024-05-01T10:00:01Z'', mk_msg ''2'' ''2024-05-01T10:00:02Z''],
              isLoading = False, defaultRoom = Some public_room\<rparr>,
      srv = \<lparr>chat_rooms = [public_room],
             public_messages = [mk_msg ''2'' ''2024-05-01T10:00:02Z'',
               mk_msg ''1'' ''2024-05-01T10:00:01Z'', mk_msg ''3'' ''2024-05-01T10:00:03Z'']\<rparr>,
      requests = [], toasts = []\<rparr>"

definition empty_input :: input_state where
  "empty_input = \<lparr>message = [], isSubmitting = False, isRecording = False,
     isProcessing = False, isUploading = False, attachment = None\<rparr>"

definition photo :: File where
  "photo = \<lparr>file_name = ''cat.png'', file_size = 2048, file_type = ''image/png''\<rparr>"

section \<open>Properties of the Local Message Store\<close>

lemma messages_applyInsert: "messages (applyInsert m s) = messages s @ [m]"
  by (simp add: applyInsert_def)

lemma messages_applyInserts: "messages (applyInserts ms s) = messages s @ ms"
  unfolding applyInserts_def
  by (induction ms arbitrary: s) (simp_all add: messages_applyInsert)

text \<open>
  Claim C8. \<^verbatim>\<open>applyDelete\<close> (the DELETE branch of the feed handler) is idempotent:
  applying it twice with the same id gives the state that applying it once gives, and
  for an id that no message of the list carries it leaves the state as it is.
\<close>

theorem applyDelete_idempotent:
  "applyDelete i (applyDelete i s) = applyDelete i s \<and>
   (i \<notin> msg_id ` set (messages s) \<longrightarrow> applyDelete i s = s)"
proof -
  have twice: "applyDelete i (applyDelete i s) = applyDelete i s"
    by (simp add: applyDelete_def)
  have absent: "applyDelete i s = s" if "i \<notin> msg_id ` set (messages s)"
  proof -
    from that have "\<forall>msg \<in> set (messages s). msg_id msg \<noteq> i"
      by auto
    then have "filter (\<lambda>msg. msg_id msg \<noteq> i) (messages s) = messages s"
      by (simp add: filter_id_conv)
    then show ?thesis
      by (simp add: applyDelete_def)
  qed
  from twice absent show ?thesis
    by blast
qed

theorem applyDelete_idempotent_witness:
  "''9'' \<notin> msg_id ` set (messages (seed [mk_msg ''1'' ''t1'', mk_msg ''2'' ''t2''] empty_chat)) \<and>
   applyDelete ''9'' (seed [mk_msg ''1'' ''t1'', mk_msg ''2'' ''t2''] empty_chat)
     = seed [mk_msg ''1'' ''t1'', mk_msg ''2'' ''t2''] empty_chat \<and>
   applyDelete ''1'' (applyDelete ''1'' (seed [mk_msg ''1'' ''t1'', mk_msg ''2'' ''t2''] empty_chat))
     = applyDelete ''1'' (seed [mk_msg ''1'' ''t1'', mk_msg ''2'' ''t2''] empty_chat) \<and>
   messages (applyDelete ''1'' (seed [mk_msg ''1'' ''t1'', mk_msg ''2'' ''t2''] empty_chat))
     = [mk_msg ''2'' ''t2'']"
  using applyDelete_idempotent [of "''9''" "seed [mk_msg ''1'' ''t1'', mk_msg ''2'' ''t2''] empty_chat"]
    applyDelete_idempotent [of "''1''" "seed [mk_msg ''1'' ''t1'', mk_msg ''2'' ''t2''] empty_chat"]
  by (simp add: seed_def empty_chat_def mk_msg_def applyDelete_def)

text \<open>
  Claim C1, as stated: after any sequence of \<^verbatim>\<open>applyInsert\<close> calls no two entries
  of the list carry the same id, an insert of an id already present leaving the list
  unchanged. The INSERT branch appends without looking at the list: delivering one
  message twice to the empty Store leaves two entries with its id.
\<close>

theorem applyInsert_duplicate_counterexample:
  "\<not> distinct (map msg_id
       (messages (applyInsert (mk_msg ''1'' ''t1'') (applyInsert (mk_msg ''1'' ''t1'') empty_chat)))) \<and>
   messages (applyInsert (mk_msg ''1'' ''t1'') (applyInsert (mk_msg ''1'' ''t1'') empty_chat))
     \<noteq> messages (applyInsert (mk_msg ''1'' ''t1'') empty_chat)"
  by (simp add: applyInsert_def empty_chat_def)

text \<open>
  Claim C1, amended: \<^verbatim>\<open>applyInsert\<close> appends the delivered message at the end of the
  list whether or not its id is present, so after a sequence of inserts the list is the
  earlier list followed by the delivered messages in delivery order; its ids are
  pairwise distinct exactly when those of the earlier list are, those of the delivered
  messages are, and no delivered id occurs in the earlier list.
\<close>

theorem applyInserts_appends:
  "messages (applyInserts ms s) = messages s @ ms \<and>
   (distinct (map msg_id (messages (applyInserts ms s))) \<longleftrightarrow>
      distinct (map msg_id (messages s)) \<and> distinct (map msg_id ms) \<and>
      msg_id ` set (messages s) \<inter> msg_id ` set ms = {})"
  by (simp add: messages_applyInserts)

theorem applyInserts_appends_witness:
  "messages (applyInserts [mk_msg ''2'' ''t2'', mk_msg ''3'' ''t3''] (seed [mk_msg ''1'' ''t1''] empty_chat))
     = [mk_msg ''1'' ''t1'', mk_msg ''2'' ''t2'', mk_msg ''3'' ''t3''] \<and>
   distinct (map msg_id
     (messages (applyInserts [mk_msg ''2'' ''t2'', mk_msg ''3'' ''t3''] (seed [mk_msg ''1'' ''t1''] empty_chat))))"
  using applyInserts_appends [of "[mk_msg ''2'' ''t2'', mk_msg ''3'' ''t3'']" "seed [mk_msg ''1'' ''t1''] empty_chat"]
  by (simp add: seed_def empty_chat_def mk_msg_def)

text \<open>
  Claim C2, as stated: the snapshot is always sorted by \<open>(created_at, id)\<close>, and seeding
  with messages 1 and 3 and then inserting message 2, created between them, gives
  \<open>[1, 2, 3]\<close>. The INSERT branch appends and nothing sorts the list: the snapshot is
  \<open>[1, 3, 2]\<close>, which is not sorted.
\<close>

theorem snapshot_sorted_counterexample:
  "msg_created_at (mk_msg ''1'' ''2024-05-01T10:00:01Z'') < msg_created_at (mk_msg ''2'' ''2024-05-01T10:00:02Z'') \<and>
   msg_created_at (mk_msg ''2'' ''2024-05-01T10:00:02Z'') < msg_created_at (mk_msg ''3'' ''2024-05-01T10:00:03Z'') \<and>
   map msg_id (snapshot (applyInsert (mk_msg ''2'' ''2024-05-01T10:00:02Z'')
     (seed [mk_msg ''1'' ''2024-05-01T10:00:01Z'', mk_msg ''3'' ''2024-05-01T10:00:03Z''] empty_chat)))
     = [''1'', ''3'', ''2''] \<and>
   \<not> sorted (map sort_key_of (snapshot (applyInsert (mk_msg ''2'' ''2024-05-01T10:00:02Z'')
     (seed [mk_msg ''1'' ''2024-05-01T10:00:01Z'', mk_msg ''3'' ''2024-05-01T10:00:03Z''] empty_chat))))"
  by (simp add: snapshot_def applyInsert_def seed_def empty_chat_def mk_msg_def sort_key_of_def)

text \<open>
  Claim C2, amended: a feed insert puts the message at the end of the snapshot and does
  not re-sort. The snapshot after the insert is sorted by \<open>(created_at, id)\<close>, the id
  breaking ties of \<open>created_at\<close>, exactly when the snapshot before it was sorted and
  no message already present has a larger key than the new one.
\<close>

theorem snapshot_applyInsert:
  "snapshot (applyInsert m s) = snapshot s @ [m] \<and>
   (sorted (map sort_key_of (snapshot (applyInsert m s))) \<longleftrightarrow>
      sorted (map sort_key_of (snapshot s)) \<and>
      (\<forall>x \<in> set (snapshot s). sort_key_of x \<le> sort_key_of m))"
  by (auto simp add: snapshot_def messages_applyInsert sorted_append)

theorem snapshot_applyInsert_witness:
  "sorted (map sort_key_of (snapshot (seed [mk_msg ''1'' ''2024-05-01T10:00:01Z'', mk_msg ''2'' ''2024-05-01T10:00:03Z''] empty_chat))) \<and>
   sort_key_of (mk_msg ''1'' ''2024-05-01T10:00:01Z'') \<le> sort_key_of (mk_msg ''3'' ''2024-05-01T10:00:03Z'') \<and>
   sort_key_of (mk_msg ''2'' ''2024-05-01T10:00:03Z'') \<le> sort_key_of (mk_msg ''3'' ''2024-05-01T10:00:03Z'') \<and>
   map msg_id (snapshot (applyInsert (mk_msg ''3'' ''2024-05-01T10:00:03Z'')
     (seed [mk_msg ''1'' ''2024-05-01T10:00:01Z'', mk_msg ''2'' ''2024-05-01T10:00:03Z''] empty_chat)))
     = [''1'', ''2'', ''3''] \<and>
   sorted (map sort_key_of (snapshot (applyInsert (mk_msg ''3'' ''2024-05-01T10:00:03Z'')
     (seed [mk_msg ''1'' ''2024-05-01T10:00:01Z'', mk_msg ''2'' ''2024-05-01T10:00:03Z''] empty_chat))))"
  using snapshot_applyInsert [of "mk_msg ''3'' ''2024-05-01T10:00:03Z''"
    "seed [mk_msg ''1'' ''2024-05-01T10:00:01Z'', mk_msg ''2'' ''2024-05-01T10:00:03Z''] empty_chat"]
  by (simp add: snapshot_def seed_def empty_chat_def mk_msg_def sort_key_of_def)

section \<open>Effects of the handlers\<close>

lemma requests_send_request [simp]: "requests (send_request r w) = requests w @ [r]"
  and chat_send_request [simp]: "chat (send_request r w) = chat w"
  and srv_send_request [simp]: "srv (send_request r w) = srv w"
  and toasts_send_request [simp]: "toasts (send_request r w) = toasts w"
  by (simp_all add: send_request_def)

lemma requests_show_toast [simp]: "requests (show_toast t w) = requests w"
  and chat_show_toast [simp]: "chat (show_toast t w) = chat w"
  and srv_show_toast [simp]: "srv (show_toast t w) = srv w"
  and toasts_show_toast [simp]: "toasts (show_toast t w) = toasts w @ [t]"
  by (simp_all add: show_toast_def)

lemma requests_setMessages [simp]: "requests (setMessages ms w) = requests w"
  and messages_setMessages [simp]: "messages (chat (setMessages ms w)) = ms"
  and defaultRoom_setMessages [simp]: "defaultRoom (chat (setMessages ms w)) = defaultRoom (chat w)"
  and srv_setMessages [simp]: "srv (setMessages ms w) = srv w"
  and toasts_setMessages [simp]: "toasts (setMessages ms w) = toasts w"
  by (simp_all add: setMessages_def)

lemma set_select_messages:
  "set (select_messages rid sv) = {m \<in> set (public_messages sv). msg_room_id m = rid}"
  by (auto simp add: select_messages_def)

lemma sorted_select_messages: "sorted (map msg_created_at (select_messages rid sv))"
  by (simp add: select_messages_def)

lemma public_messages_delete_message:
  "public_messages (delete_message i sv) = filter (\<lambda>m. msg_id m \<noteq> i) (public_messages sv)"
  by (simp add: delete_message_def)

text \<open>
  Claim C3. When the delete request of \<^verbatim>\<open>deleteMessage\<close> succeeds, the message list
  afterwards holds no message with that id, whatever the feed delivers: the handler
  sends the delete, then filters the id out of the local list, then asks for the room's
  messages and, when that request succeeds, replaces the list by the answer, which is
  ordered ascending by \<open>created_at\<close>; when the refresh fails the filtered list stays.
\<close>

theorem deleteMessage_removes:
  assumes "deleteError net = None"
  shows "messageId \<notin> msg_id ` set (messages (chat (deleteMessage net messageId w))) \<and>
    requests (deleteMessage net messageId w)
      = requests w @ [DeleteMessage messageId, SelectMessages (refresh_room_id w)] \<and>
    srv (deleteMessage net messageId w) = delete_message messageId (srv w) \<and>
    (refreshError net = None \<longrightarrow>
       messages (chat (deleteMessage net messageId w))
         = select_messages (refresh_room_id w) (delete_message messageId (srv w)) \<and>
       sorted (map msg_created_at (messages (chat (deleteMessage net messageId w))))) \<and>
    (refreshError net \<noteq> None \<longrightarrow>
       messages (chat (deleteMessage net messageId w))
         = filter (\<lambda>msg. msg_id msg \<noteq> messageId) (messages (chat w)))"
proof -
  let ?w = "deleteMessage net messageId w"
  let ?rid = "refresh_room_id w"
  have reqs: "requests ?w = requests w @ [DeleteMessage messageId, SelectMessages ?rid]"
    using assms
    by (simp add: deleteMessage_def Let_def refresh_room_id_def split: option.splits)
  have sv: "srv ?w = delete_message messageId (srv w)"
    using assms by (simp add: deleteMessage_def Let_def split: option.splits)
  have ok: "messages (chat ?w) = select_messages ?rid (delete_message messageId (srv w))"
    if "refreshError net = None"
    using assms that by (simp add: deleteMessage_def Let_def refresh_room_id_def)
  have ko: "messages (chat ?w) = filter (\<lambda>msg. msg_id msg \<noteq> messageId) (messages (chat w))"
    if "refreshError net \<noteq> None"
    using assms that by (auto simp add: deleteMessage_def Let_def)
  have gone: "messageId \<notin> msg_id ` set (messages (chat ?w))"
  proof (cases "refreshError net")
    case None
    then show ?thesis
      by (auto simp add: ok set_select_messages public_messages_delete_message)
  next
    case (Some e)
    then show ?thesis
      by (auto simp add: ko)
  qed
  from reqs sv ok ko gone show ?thesis
    by (simp add: sorted_select_messages)
qed

theorem deleteMessage_removes_witness:
  "deleteError \<lparr>deleteError = None, refreshError = None\<rparr> = None \<and>
   refreshError \<lparr>deleteError = None, refreshError = None\<rparr> = None \<and>
   map msg_id (messages (chat (deleteMessage \<lparr>deleteError = None, refreshError = None\<rparr> ''1'' joined_world)))
     = [''2'', ''3''] \<and>
   requests (deleteMessage \<lparr>deleteError = None, refreshError = None\<rparr> ''1'' joined_world)
     = [DeleteMessage ''1'', SelectMessages ''r1''] \<and>
   refreshError \<lparr>deleteError = None, refreshError = Some (Error ''offline'')\<rparr> \<noteq> None \<and>
   map msg_id (messages (chat (deleteMessage
       \<lparr>deleteError = None, refreshError = Some (Error ''offline'')\<rparr> ''1'' joined_world)))
     = [''2'']"
  using deleteMessage_removes [of "\<lparr>deleteError = None, refreshError = None\<rparr>" "''1''" joined_world]
    deleteMessage_removes [of "\<lparr>deleteError = None, refreshError = Some (Error ''offline'')\<rparr>"
      "''1''" joined_world]
  by (simp add: joined_world_def refresh_room_id_def public_room_def select_messages_def
      delete_message_def mk_msg_def)

lemma trim_Nil_iff: "trim s = [] \<longleftrightarrow> (\<forall>c \<in> set s. is_ws c)"
proof
  assume "trim s = []"
  then have "dropWhile is_ws (rev (dropWhile is_ws s)) = []"
    by (simp add: trim_def)
  then have all: "\<forall>c \<in> set (dropWhile is_ws s). is_ws c"
    by (simp add: dropWhile_eq_Nil_conv)
  show "\<forall>c \<in> set s. is_ws c"
  proof (cases "dropWhile is_ws s")
    case Nil
    then show ?thesis by (simp add: dropWhile_eq_Nil_conv)
  next
    case (Cons c cs)
    then have "\<not> is_ws c"
      using hd_dropWhile [of is_ws s] by simp
    with all Cons show ?thesis by simp
  qed
next
  assume "\<forall>c \<in> set s. is_ws c"
  then show "trim s = []"
    by (auto simp add: trim_def dest: set_dropWhileD)
qed

text \<open>
  Claim C4. A send whose text is empty or white space only, with no attachment, is
  rejected before any request is made: \<^verbatim>\<open>sendMessage\<close> returns and \<^verbatim>\<open>handleSubmit\<close>
  ends with the state, the backing store, the list of requests sent and the toasts all
  as they were. So a request is sent only if the text has a character that is not
  white space or an attachment is present.
\<close>

theorem send_empty_rejected:
  "((\<forall>c \<in> set t. is_ws c) \<longrightarrow>
      sendMessage snet t None w = (Returned, w) \<and>
      (message i = t \<and> attachment i = None \<longrightarrow>
         handleSubmit onSendMessage disabled net (i, w) = (i, w) \<and>
         send snet net (i, w) = (i, w))) \<and>
   (requests (snd (sendMessage snet t info w)) \<noteq> requests w \<longrightarrow>
      (\<exists>c \<in> set t. \<not> is_ws c) \<or> info \<noteq> None)"
proof -
  have rejected: "sendMessage snet t None w = (Returned, w) \<and>
      (message i = t \<and> attachment i = None \<longrightarrow>
         handleSubmit onSendMessage disabled net (i, w) = (i, w) \<and>
         send snet net (i, w) = (i, w))"
    if "\<forall>c \<in> set t. is_ws c"
  proof -
    from that have e: "trim t = []"
      by (simp add: trim_Nil_iff)
    then have "sendMessage snet t None w = (Returned, w)"
      by (simp add: sendMessage_def)
    moreover have "handleSubmit f d net (i, w) = (i, w)"
      if "message i = t" "attachment i = None" for f d
      using that e by (simp add: handleSubmit_def)
    ultimately show ?thesis
      by (simp add: send_def)
  qed
  have needed: "(\<exists>c \<in> set t. \<not> is_ws c) \<or> info \<noteq> None"
    if "requests (snd (sendMessage snet t info w)) \<noteq> requests w"
  proof (rule ccontr)
    assume "\<not> ((\<exists>c \<in> set t. \<not> is_ws c) \<or> info \<noteq> None)"
    then have "trim t = []" and "info = None"
      by (simp_all add: trim_Nil_iff)
    then have "sendMessage snet t info w = (Returned, w)"
      by (simp add: sendMessage_def)
    with that show False
      by simp
  qed
  from rejected needed show ?thesis
    by blast
qed

theorem send_empty_rejected_witness:
  "is_ws CHR '' '' \<and>
   sendMessage \<lparr>insertError = None, new_msg_id = ''7'', new_msg_created_at = ''2024-05-01T10:00:07Z''\<rparr>
      ''  '' None joined_world = (Returned, joined_world) \<and>
   send \<lparr>insertError = None, new_msg_id = ''7'', new_msg_created_at = ''2024-05-01T10:00:07Z''\<rparr>
      \<lparr>now = ''1714557600000'', uploadResult = Inr ''1714557600000-cat.png''\<rparr>
      (empty_input\<lparr>message := ''  ''\<rparr>, joined_world)
     = (empty_input\<lparr>message := ''  ''\<rparr>, joined_world) \<and>
   requests (snd (sendMessage
      \<lparr>insertError = None, new_msg_id = ''7'', new_msg_created_at = ''2024-05-01T10:00:07Z''\<rparr>
      '' hi '' None joined_world)) \<noteq> requests joined_world \<and>
   \<not> is_ws CHR ''h''"
  using send_empty_rejected [where t = "''  ''"
      and snet = "\<lparr>insertError = None, new_msg_id = ''7'', new_msg_created_at = ''2024-05-01T10:00:07Z''\<rparr>"
      and w = joined_world and i = "empty_input\<lparr>message := ''  ''\<rparr>"
      and onSendMessage = "\<lambda>t a w. (Returned, w)" and disabled = False
      and net = "\<lparr>now = ''1714557600000'', uploadResult = Inr ''1714557600000-cat.png''\<rparr>"
      and info = None]
    send_empty_rejected [where t = "'' hi ''"
      and snet = "\<lparr>insertError = None, new_msg_id = ''7'', new_msg_created_at = ''2024-05-01T10:00:07Z''\<rparr>"
      and w = joined_world and i = "empty_input\<lparr>message := '' hi ''\<rparr>"
      and onSendMessage = "\<lambda>t a w. (Returned, w)" and disabled = False
      and net = "\<lparr>now = ''1714557600000'', uploadResult = Inr ''1714557600000-cat.png''\<rparr>"
      and info = None]
  by (simp add: is_ws_def empty_input_def joined_world_def sendMessage_def trim_def Let_def
      insert_message_def)

lemma chat_sendMessage: "chat (snd (sendMessage snet text info w)) = chat w"
  by (simp add: sendMessage_def Let_def split: option.splits prod.splits)

lemma chat_submit_message:
  assumes "\<And>t a w'. chat (snd (f t a w')) = chat w'"
  shows "chat (snd (submit_message f info (i, w))) = chat w"
proof -
  obtain r w' where r: "f (trim (message i)) info w = (r, w')"
    by (cases "f (trim (message i)) info w")
  with assms [of "trim (message i)" info w] have "chat w' = chat w"
    by simp
  with r show ?thesis
    by (cases r) (simp_all add: submit_message_def)
qed

lemma chat_handleSubmit:
  assumes "\<And>t a w'. chat (snd (f t a w')) = chat w'"
  shows "chat (snd (handleSubmit f d net (i, w))) = chat w"
  using assms
  by (simp add: handleSubmit_def Let_def chat_submit_message split: option.splits sum.splits)

lemma chat_send: "chat (snd (send snet net (i, w))) = chat w"
  by (simp add: send_def chat_handleSubmit chat_sendMessage)

text \<open>
  Claim C6. Sending never changes the local message list: after \<^verbatim>\<open>sendMessage\<close>, and
  after a whole \<^verbatim>\<open>handleSubmit\<close> with it, the list is what it was, whether the send
  succeeded or failed. A successful send adds the row to the backing store only; the
  row enters the list when the feed handler receives its INSERT event.
\<close>

theorem send_keeps_store:
  "messages (chat (snd (sendMessage snet t info w))) = messages (chat w) \<and>
   messages (chat (snd (send snet net (i, w)))) = messages (chat w) \<and>
   (insertError snet = None \<and> defaultRoom (chat w) = Some room \<and>
    \<not> (trim t = [] \<and> info = None) \<longrightarrow>
      (\<exists>row. public_messages (srv (snd (sendMessage snet t info w)))
                = public_messages (srv w) @ [row] \<and>
             msg_id row = new_msg_id snet \<and> msg_room_id row = room_id room \<and>
             sender_name row = username (chat w) \<and> content row = t \<and>
             messages (postgres_changes (INSERT row) (chat (snd (sendMessage snet t info w))))
                = messages (chat w) @ [row]))"
proof -
  have "\<exists>row. public_messages (srv (snd (sendMessage snet t info w)))
                = public_messages (srv w) @ [row] \<and>
             msg_id row = new_msg_id snet \<and> msg_room_id row = room_id room \<and>
             sender_name row = username (chat w) \<and> content row = t \<and>
             messages (postgres_changes (INSERT row) (chat (snd (sendMessage snet t info w))))
                = messages (chat w) @ [row]"
    if "insertError snet = None" "defaultRoom (chat w) = Some room"
      "\<not> (trim t = [] \<and> info = None)"
    using that
    by (cases info) (auto simp add: sendMessage_def Let_def insert_message_def)
  then show ?thesis
    by (simp add: chat_sendMessage chat_send)
qed

theorem send_keeps_store_witness:
  "messages (chat (snd (sendMessage
      \<lparr>insertError = None, new_msg_id = ''7'', new_msg_created_at = ''2024-05-01T10:00:07Z''\<rparr>
      ''hello'' None joined_world))) = messages (chat joined_world) \<and>
   map msg_id (public_messages (srv (snd (sendMessage
      \<lparr>insertError = None, new_msg_id = ''7'', new_msg_created_at = ''2024-05-01T10:00:07Z''\<rparr>
      ''hello'' None joined_world)))) = [''2'', ''1'', ''3'', ''7''] \<and>
   insertError \<lparr>insertError = None, new_msg_id = ''7'', new_msg_created_at = ''2024-05-01T10:00:07Z''\<rparr> = None \<and>
   defaultRoom (chat joined_world) = Some public_room \<and>
   trim ''hello'' = ''hello''"
  using send_keeps_store [where
      snet = "\<lparr>insertError = None, new_msg_id = ''7'', new_msg_created_at = ''2024-05-01T10:00:07Z''\<rparr>"
      and t = "''hello''" and info = None and w = joined_world
      and net = "\<lparr>now = ''1714557600000'', uploadResult = Inr ''1714557600000-cat.png''\<rparr>"
      and i = empty_input and room = public_room]
  by (auto simp add: joined_world_def trim_def is_ws_def mk_msg_def)

text \<open>
  Claim C5. When the upload of the attachment fails, \<^verbatim>\<open>handleSubmit\<close> stops there:
  the upload is the only request it sent (\<^verbatim>\<open>onSendMessage\<close> is not called, so no
  message insert is attempted), the draft and the pending attachment are as before,
  and the toast shown is the upload failure's, which differs from the toast that
  \<^verbatim>\<open>sendMessage\<close> shows when the insert fails.
\<close>

theorem upload_failure_aborts:
  assumes "attachment i = Some f" and "\<not> isSubmitting i" and "\<not> disabled"
    and "uploadResult net = Inl e"
  shows "requests (snd (handleSubmit onSendMessage disabled net (i, w)))
      = requests w @ [Upload (now net @ ''-'' @ file_name f) f] \<and>
    srv (snd (handleSubmit onSendMessage disabled net (i, w))) = srv w \<and>
    chat (snd (handleSubmit onSendMessage disabled net (i, w))) = chat w \<and>
    toasts (snd (handleSubmit onSendMessage disabled net (i, w)))
      = toasts w @ [Toast ''Upload failed'' ''Failed to upload attachment. Please try again.'' True] \<and>
    message (fst (handleSubmit onSendMessage disabled net (i, w))) = message i \<and>
    attachment (fst (handleSubmit onSendMessage disabled net (i, w))) = attachment i \<and>
    fst (handleSubmit onSendMessage disabled net (i, w))
      = i\<lparr>isSubmitting := False, isUploading := False\<rparr> \<and>
    (insertError snet = Some e' \<and> defaultRoom (chat w) = Some room \<longrightarrow>
       toasts (snd (sendMessage snet t (Some a) w))
         = toasts w @ [Toast ''Error'' ''Failed to send your message. Please try again.'' True] \<and>
       Toast ''Error'' ''Failed to send your message. Please try again.'' True
         \<noteq> Toast ''Upload failed'' ''Failed to upload attachment. Please try again.'' True)"
  using assms
  by (simp add: handleSubmit_def sendMessage_def Let_def)


theorem upload_failure_aborts_witness:
  "attachment (empty_input\<lparr>message := ''look'', attachment := Some photo\<rparr>) = Some photo \<and>
   uploadResult \<lparr>now = ''1714557600000'', uploadResult = Inl (Error ''quota'')\<rparr> = Inl (Error ''quota'') \<and>
   requests (snd (handleSubmit
       (sendMessage \<lparr>insertError = None, new_msg_id = ''7'', new_msg_created_at = ''2024-05-01T10:00:07Z''\<rparr>)
       False \<lparr>now = ''1714557600000'', uploadResult = Inl (Error ''quota'')\<rparr>
       (empty_input\<lparr>message := ''look'', attachment := Some photo\<rparr>, joined_world)))
     = [Upload ''1714557600000-cat.png'' photo] \<and>
   message (fst (handleSubmit
       (sendMessage \<lparr>insertError = None, new_msg_id = ''7'', new_msg_created_at = ''2024-05-01T10:00:07Z''\<rparr>)
       False \<lparr>now = ''1714557600000'', uploadResult = Inl (Error ''quota'')\<rparr>
       (empty_input\<lparr>message := ''look'', attachment := Some photo\<rparr>, joined_world)))
     = ''look'' \<and>
   toasts (snd (handleSubmit
       (sendMessage \<lparr>insertError = None, new_msg_id = ''7'', new_msg_created_at = ''2024-05-01T10:00:07Z''\<rparr>)
       False \<lparr>now = ''1714557600000'', uploadResult = Inl (Error ''quota'')\<rparr>
       (empty_input\<lparr>message := ''look'', attachment := Some photo\<rparr>, joined_world)))
     = [Toast ''Upload failed'' ''Failed to upload attachment. Please try again.'' True] \<and>
   toasts (snd (sendMessage
       \<lparr>insertError = Some (Error ''down''), new_msg_id = ''7'', new_msg_created_at = ''2024-05-01T10:00:07Z''\<rparr>
       ''look'' (Some \<lparr>path = ''p'', type = ''image/png''\<rparr>) joined_world))
     = [Toast ''Error'' ''Failed to send your message. Please try again.'' True]"
  using upload_failure_aborts [where i = "empty_input\<lparr>message := ''look'', attachment := Some photo\<rparr>"
      and f = photo and disabled = False
      and net = "\<lparr>now = ''1714557600000'', uploadResult = Inl (Error ''quota'')\<rparr>"
      and e = "Error ''quota''"
      and snet = "\<lparr>insertError = Some (Error ''down''), new_msg_id = ''7'', new_msg_created_at = ''2024-05-01T10:00:07Z''\<rparr>"
      and e' = "Error ''down''" and w = joined_world and room = public_room
      and onSendMessage = "sendMessage \<lparr>insertError = None, new_msg_id = ''7'', new_msg_created_at = ''2024-05-01T10:00:07Z''\<rparr>"
      and t = "''look''" and a = "\<lparr>path = ''p'', type = ''image/png''\<rparr>"]
  by (simp add: empty_input_def joined_world_def photo_def)

text \<open>
  Claim C9. When the recogniser answers with a non-empty text, as one object or as the
  first chunk of an array, \<^verbatim>\<open>processAudio\<close> makes the draft that text if the draft
  was empty and the draft, one space and that text otherwise, changes nothing else of
  the input state and shows the toasts \<open>Processing\<close> and \<open>Success\<close>. When the answer
  has no text (an empty text, an empty array, a first chunk with empty text, or no
  \<^verbatim>\<open>text\<close> at all) the input state is unchanged and the toast after \<open>Processing\<close> is
  \<open>No speech detected\<close>; when recognition throws the input state is unchanged and the
  toast is the destructive \<open>Error\<close> one. In every case the pending attachment and the
  submission flags are untouched, nothing is requested, and the backing store and the
  chat state are as before.
\<close>

theorem transcription_appends:
  "(t \<noteq> [] \<longrightarrow>
      fst (processAudio (Inr (ResultObject t)) (i, w))
        = i\<lparr>message := (if message i = [] then t else message i @ '' '' @ t)\<rparr> \<and>
      fst (processAudio (Inr (ResultArray (t # ts))) (i, w))
        = i\<lparr>message := (if message i = [] then t else message i @ '' '' @ t)\<rparr> \<and>
      toasts (snd (processAudio (Inr (ResultObject t)) (i, w)))
        = toasts w @ [Toast ''Processing'' ''Converting your speech to text...'' False,
                      Toast ''Success'' ''Speech transcribed successfully'' False] \<and>
      toasts (snd (processAudio (Inr (ResultArray (t # ts))) (i, w)))
        = toasts w @ [Toast ''Processing'' ''Converting your speech to text...'' False,
                      Toast ''Success'' ''Speech transcribed successfully'' False]) \<and>
   (answer = Inr (ResultObject []) \<or> answer = Inr (ResultArray []) \<or>
    answer = Inr (ResultArray ([] # ts)) \<or> answer = Inr ResultOther \<longrightarrow>
      fst (processAudio answer (i, w)) = i \<and>
      toasts (snd (processAudio answer (i, w)))
        = toasts w @ [Toast ''Processing'' ''Converting your speech to text...'' False,
                      Toast ''No speech detected'' ''Please try again and speak clearly'' False]) \<and>
   fst (processAudio (Inl e) (i, w)) = i \<and>
   toasts (snd (processAudio (Inl e) (i, w)))
     = toasts w @ [Toast ''Processing'' ''Converting your speech to text...'' False,
                   Toast ''Error'' ''Speech recognition failed. Please try again.'' True] \<and>
   attachment (fst (processAudio answer (i, w))) = attachment i \<and>
   isSubmitting (fst (processAudio answer (i, w))) = isSubmitting i \<and>
   isUploading (fst (processAudio answer (i, w))) = isUploading i \<and>
   requests (snd (processAudio answer (i, w))) = requests w \<and>
   srv (snd (processAudio answer (i, w))) = srv w \<and>
   chat (snd (processAudio answer (i, w))) = chat w"
proof -
  have spoken: "fst (processAudio (Inr r) (i, w))
        = i\<lparr>message := (if message i = [] then t else message i @ '' '' @ t)\<rparr> \<and>
      toasts (snd (processAudio (Inr r) (i, w)))
        = toasts w @ [Toast ''Processing'' ''Converting your speech to text...'' False,
                      Toast ''Success'' ''Speech transcribed successfully'' False]"
    if "t \<noteq> []" "r = ResultObject t \<or> r = ResultArray (t # ts)" for r
    using that by (auto simp add: processAudio_def transcribedText_def Let_def)
  have silent: "fst (processAudio answer (i, w)) = i \<and>
      toasts (snd (processAudio answer (i, w)))
        = toasts w @ [Toast ''Processing'' ''Converting your speech to text...'' False,
                      Toast ''No speech detected'' ''Please try again and speak clearly'' False]"
    if "answer = Inr (ResultObject []) \<or> answer = Inr (ResultArray []) \<or>
        answer = Inr (ResultArray ([] # ts)) \<or> answer = Inr ResultOther"
    using that by (auto simp add: processAudio_def transcribedText_def Let_def)
  have thrown: "fst (processAudio (Inl e) (i, w)) = i \<and>
      toasts (snd (processAudio (Inl e) (i, w)))
        = toasts w @ [Toast ''Processing'' ''Converting your speech to text...'' False,
                      Toast ''Error'' ''Speech recognition failed. Please try again.'' True]"
    by (simp add: processAudio_def Let_def)
  have frame: "attachment (fst (processAudio answer (i, w))) = attachment i \<and>
      isSubmitting (fst (processAudio answer (i, w))) = isSubmitting i \<and>
      isUploading (fst (processAudio answer (i, w))) = isUploading i \<and>
      requests (snd (processAudio answer (i, w))) = requests w \<and>
      srv (snd (processAudio answer (i, w))) = srv w \<and>
      chat (snd (processAudio answer (i, w))) = chat w"
    by (cases answer) (auto simp add: processAudio_def Let_def)
  from spoken [of "ResultObject t"] spoken [of "ResultArray (t # ts)"] silent thrown frame
  show ?thesis
    by blast
qed

theorem transcription_appends_witness:
  "processAudio (Inr (ResultObject ''world'')) (empty_input\<lparr>message := ''hello''\<rparr>, joined_world)
     = (empty_input\<lparr>message := ''hello world''\<rparr>,
        joined_world\<lparr>toasts := [Toast ''Processing'' ''Converting your speech to text...'' False,
                                Toast ''Success'' ''Speech transcribed successfully'' False]\<rparr>) \<and>
   fst (processAudio (Inr (ResultArray [''world'', ''x''])) (empty_input, joined_world))
     = empty_input\<lparr>message := ''world''\<rparr> \<and>
   processAudio (Inr (ResultArray [])) (empty_input\<lparr>message := ''hello''\<rparr>, joined_world)
     = (empty_input\<lparr>message := ''hello''\<rparr>,
        joined_world\<lparr>toasts := [Toast ''Processing'' ''Converting your speech to text...'' False,
                                Toast ''No speech detected'' ''Please try again and speak clearly'' False]\<rparr>) \<and>
   fst (processAudio (Inr (ResultObject [])) (empty_input\<lparr>message := ''hello''\<rparr>, joined_world))
     = empty_input\<lparr>message := ''hello''\<rparr> \<and>
   fst (processAudio (Inr (ResultArray [[], ''x''])) (empty_input\<lparr>message := ''hello''\<rparr>, joined_world))
     = empty_input\<lparr>message := ''hello''\<rparr> \<and>
   fst (processAudio (Inr ResultOther) (empty_input\<lparr>message := ''hello''\<rparr>, joined_world))
     = empty_input\<lparr>message := ''hello''\<rparr> \<and>
   processAudio (Inl (Error ''no webgpu'')) (empty_input\<lparr>message := ''hello''\<rparr>, joined_world)
     = (empty_input\<lparr>message := ''hello''\<rparr>,
        joined_world\<lparr>toasts := [Toast ''Processing'' ''Converting your speech to text...'' False,
                                Toast ''Error'' ''Speech recognition failed. Please try again.'' True]\<rparr>)"
  using transcription_appends [where t = "''world''" and ts = "[''x'']"
      and i = "empty_input\<lparr>message := ''hello''\<rparr>" and w = joined_world
      and answer = "Inr (ResultArray [])" and e = "Error ''no webgpu''"]
    transcription_appends [where t = "''world''" and ts = "[''x'']"
      and i = empty_input and w = joined_world
      and answer = "Inr (ResultArray [[], ''x''])" and e = "Error ''no webgpu''"]
    transcription_appends [where t = "''world''" and ts = "[''x'']"
      and i = "empty_input\<lparr>message := ''hello''\<rparr>" and w = joined_world
      and answer = "Inr (ResultArray [[], ''x''])" and e = "Error ''no webgpu''"]
    transcription_appends [where t = "''world''" and ts = "[''x'']"
      and i = "empty_input\<lparr>message := ''hello''\<rparr>" and w = joined_world
      and answer = "Inr (ResultObject [])" and e = "Error ''no webgpu''"]
    transcription_appends [where t = "''world''" and ts = "[''x'']"
      and i = "empty_input\<lparr>message := ''hello''\<rparr>" and w = joined_world
      and answer = "Inr ResultOther" and e = "Error ''no webgpu''"]
  by (simp add: processAudio_def transcribedText_def show_toast_def empty_input_def
      joined_world_def Let_def)

text \<open>
  Claim C10. \<^verbatim>\<open>handleFileInputChange\<close> makes the chosen file the pending attachment
  exactly when its size is at most \<open>10 * 1024 * 1024\<close> bytes and its media type is one
  of the eight allowed ones. Otherwise it shows a destructive toast, sends no request
  and leaves the input state, so an unset attachment stays unset.
\<close>

theorem attachment_accepted_iff:
  "(file_size file \<le> 10 * 1024 * 1024 \<and>
    file_type file \<in> {''image/jpeg'', ''image/png'', ''image/gif'', ''image/webp'',
       ''application/pdf'', ''text/plain'', ''application/msword'',
       ''application/vnd.openxmlformats-officedocument.wordprocessingml.document''} \<longrightarrow>
      handleFileInputChange (Some file) (i, w) = (i\<lparr>attachment := Some file\<rparr>, w)) \<and>
   (\<not> (file_size file \<le> 10 * 1024 * 1024 \<and>
    file_type file \<in> {''image/jpeg'', ''image/png'', ''image/gif'', ''image/webp'',
       ''application/pdf'', ''text/plain'', ''application/msword'',
       ''application/vnd.openxmlformats-officedocument.wordprocessingml.document''}) \<longrightarrow>
      fst (handleFileInputChange (Some file) (i, w)) = i \<and>
      requests (snd (handleFileInputChange (Some file) (i, w))) = requests w \<and>
      srv (snd (handleFileInputChange (Some file) (i, w))) = srv w \<and>
      chat (snd (handleFileInputChange (Some file) (i, w))) = chat w \<and>
      (\<exists>title text. toasts (snd (handleFileInputChange (Some file) (i, w)))
                       = toasts w @ [Toast title text True])) \<and>
   (attachment i = None \<longrightarrow>
      (attachment (fst (handleFileInputChange (Some file) (i, w))) = Some file \<longleftrightarrow>
       file_size file \<le> 10485760 \<and>
       file_type file \<in> {''image/jpeg'', ''image/png'', ''image/gif'', ''image/webp'',
       ''application/pdf'', ''text/plain'', ''application/msword'',
       ''application/vnd.openxmlformats-officedocument.wordprocessingml.document''}))"
  by (simp add: handleFileInputChange_def allowedTypes_def) 


theorem attachment_accepted_iff_witness:
  "handleFileInputChange (Some photo) (empty_input, joined_world)
     = (empty_input\<lparr>attachment := Some photo\<rparr>, joined_world) \<and>
   fst (handleFileInputChange (Some (photo\<lparr>file_size := 10485761\<rparr>)) (empty_input, joined_world))
     = empty_input \<and>
   fst (handleFileInputChange (Some (photo\<lparr>file_type := ''video/mp4''\<rparr>)) (empty_input, joined_world))
     = empty_input \<and>
   attachment (fst (handleFileInputChange (Some (photo\<lparr>file_size := 10485760\<rparr>)) (empty_input, joined_world)))
     = Some (photo\<lparr>file_size := 10485760\<rparr>)"
  using attachment_accepted_iff [of photo empty_input joined_world]
    attachment_accepted_iff [of "photo\<lparr>file_size := 10485761\<rparr>" empty_input joined_world]
    attachment_accepted_iff [of "photo\<lparr>file_type := ''video/mp4''\<rparr>" empty_input joined_world]
    attachment_accepted_iff [of "photo\<lparr>file_size := 10485760\<rparr>" empty_input joined_world]
  by (simp add: photo_def empty_input_def)

lemma srv_setIsLoading [simp]: "srv (setIsLoading b w) = srv w"
  and requests_setIsLoading [simp]: "requests (setIsLoading b w) = requests w"
  and toasts_setIsLoading [simp]: "toasts (setIsLoading b w) = toasts w"
  and chat_setIsLoading [simp]: "chat (setIsLoading b w) = (chat w)\<lparr>isLoading := b\<rparr>"
  by (simp_all add: setIsLoading_def)

lemma srv_setDefaultRoom [simp]: "srv (setDefaultRoom r w) = srv w"
  and requests_setDefaultRoom [simp]: "requests (setDefaultRoom r w) = requests w"
  and toasts_setDefaultRoom [simp]: "toasts (setDefaultRoom r w) = toasts w"
  and chat_setDefaultRoom [simp]: "chat (setDefaultRoom r w) = (chat w)\<lparr>defaultRoom := r\<rparr>"
  by (simp_all add: setDefaultRoom_def)

lemma chat_init_failed [simp]: "chat (init_failed w) = (chat w)\<lparr>isLoading := False\<rparr>"
  and srv_init_failed [simp]: "srv (init_failed w) = srv w"
  and requests_init_failed [simp]: "requests (init_failed w) = requests w"
  and toasts_init_failed [simp]:
    "toasts (init_failed w) = toasts w @ [Toast ''Error'' ''Failed to load the chat. Please try again.'' True]"
  by (simp_all add: init_failed_def setIsLoading_def)

lemma defaultRoom_load_and_subscribe [simp]:
  "defaultRoom (chat (load_and_subscribe net room w)) = Some room"
  by (simp add: load_and_subscribe_def Let_def setIsLoading_def setDefaultRoom_def setMessages_def
      split: option.splits)

lemma srv_load_and_subscribe [simp]: "srv (load_and_subscribe net room w) = srv w"
  by (simp add: load_and_subscribe_def Let_def setIsLoading_def setDefaultRoom_def
      split: option.splits)

lemma select_rooms_slug: "r \<in> set (select_rooms slug sv) \<Longrightarrow> room_slug r = slug"
  by (simp add: select_rooms_def)

lemma initializeChat_found:
  assumes "username (chat w) \<noteq> []" and "roomError net = None"
    and "select_rooms DEFAULT_ROOM_SLUG (srv w) = room # rest"
  shows "initializeChat net w
    = load_and_subscribe net room (send_request (SelectRooms DEFAULT_ROOM_SLUG) (setIsLoading True w))"
  using assms by (simp add: initializeChat_def Let_def setIsLoading_def)

lemma initializeChat_created:
  assumes "username (chat w) \<noteq> []" and "roomError net = None"
    and "select_rooms DEFAULT_ROOM_SLUG (srv w) = []" and "createError net = None"
  shows "defaultRoom (chat (initializeChat net w))
      = Some \<lparr>room_id = new_room_id net, room_name = DEFAULT_ROOM_NAME,
              room_slug = DEFAULT_ROOM_SLUG, room_created_at = new_room_created_at net\<rparr>"
    and "chat_rooms (srv (initializeChat net w))
      = chat_rooms (srv w) @
        [\<lparr>room_id = new_room_id net, room_name = DEFAULT_ROOM_NAME,
          room_slug = DEFAULT_ROOM_SLUG, room_created_at = new_room_created_at net\<rparr>]"
  using assms by (simp_all add: initializeChat_def Let_def setIsLoading_def insert_room_def)

lemma initializeChat_resolved:
  assumes "username (chat w) \<noteq> []" and "roomError net = None"
    and "select_rooms DEFAULT_ROOM_SLUG (srv w) = [] \<longrightarrow> createError net = None"
  shows "select_rooms DEFAULT_ROOM_SLUG (srv (initializeChat net w)) \<noteq> []"
proof (cases "select_rooms DEFAULT_ROOM_SLUG (srv w)")
  case Nil
  with assms initializeChat_created(2) [of w net] show ?thesis
    by (simp add: select_rooms_def)
next
  case (Cons room rest)
  with assms show ?thesis
    by (simp add: initializeChat_found)
qed


lemma initializeChat_lookup_failed:
  assumes "username (chat w) \<noteq> []" and "roomError net = Some e"
  shows "initializeChat net w
    = init_failed (send_request (SelectRooms DEFAULT_ROOM_SLUG) (setIsLoading True w))"
  using assms by (simp add: initializeChat_def Let_def)

lemma initializeChat_create_failed:
  assumes "username (chat w) \<noteq> []" and "roomError net = None"
    and "select_rooms DEFAULT_ROOM_SLUG (srv w) = []" and "createError net = Some e"
  shows "initializeChat net w
    = init_failed (send_request (InsertRoom DEFAULT_ROOM_NAME DEFAULT_ROOM_SLUG)
        (send_request (SelectRooms DEFAULT_ROOM_SLUG) (setIsLoading True w)))"
  using assms by (simp add: initializeChat_def Let_def)

text \<open>
  Claim C7. \<^verbatim>\<open>initializeChat\<close> for a named user looks the room up by the slug
  \<^verbatim>\<open>public\<close>. If there is none and the creation succeeds, the room it uses is a new one
  with the default name and that slug; if there is one, it uses the first and creates
  nothing. After a successful resolution, the resolution of any other session against
  the same backing store finds a room with that slug and creates nothing. If the lookup
  or the creation fails, one error toast is shown, no further request is sent (no
  second attempt), the room stays unset and the input of a fresh session stays
  disabled.
\<close>

theorem resolve_default_room:
  assumes "username (chat w) \<noteq> []"
  shows
    "(roomError net = None \<and> select_rooms DEFAULT_ROOM_SLUG (srv w) = [] \<and> createError net = None \<longrightarrow>
        (\<exists>room. defaultRoom (chat (initializeChat net w)) = Some room \<and>
           room_name room = DEFAULT_ROOM_NAME \<and> room_slug room = DEFAULT_ROOM_SLUG \<and>
           chat_rooms (srv (initializeChat net w)) = chat_rooms (srv w) @ [room])) \<and>
     (roomError net = None \<and> select_rooms DEFAULT_ROOM_SLUG (srv w) = found # rest \<longrightarrow>
        defaultRoom (chat (initializeChat net w)) = Some found \<and>
        room_slug found = DEFAULT_ROOM_SLUG \<and>
        srv (initializeChat net w) = srv w) \<and>
     (roomError net = None \<and>
      (select_rooms DEFAULT_ROOM_SLUG (srv w) = [] \<longrightarrow> createError net = None) \<and>
      username (chat w2) \<noteq> [] \<and> srv w2 = srv (initializeChat net w) \<and> roomError net2 = None \<longrightarrow>
        (\<exists>room2. defaultRoom (chat (initializeChat net2 w2)) = Some room2 \<and>
           room_slug room2 = DEFAULT_ROOM_SLUG \<and>
           srv (initializeChat net2 w2) = srv (initializeChat net w))) \<and>
     (roomError net = Some e \<longrightarrow>
        chat (initializeChat net w) = (chat w)\<lparr>isLoading := False\<rparr> \<and>
        srv (initializeChat net w) = srv w \<and>
        requests (initializeChat net w) = requests w @ [SelectRooms DEFAULT_ROOM_SLUG] \<and>
        toasts (initializeChat net w)
          = toasts w @ [Toast ''Error'' ''Failed to load the chat. Please try again.'' True]) \<and>
     (roomError net = None \<and> select_rooms DEFAULT_ROOM_SLUG (srv w) = [] \<and> createError net = Some e \<longrightarrow>
        chat (initializeChat net w) = (chat w)\<lparr>isLoading := False\<rparr> \<and>
        srv (initializeChat net w) = srv w \<and>
        requests (initializeChat net w)
          = requests w @ [SelectRooms DEFAULT_ROOM_SLUG, InsertRoom DEFAULT_ROOM_NAME DEFAULT_ROOM_SLUG] \<and>
        toasts (initializeChat net w)
          = toasts w @ [Toast ''Error'' ''Failed to load the chat. Please try again.'' True]) \<and>
     ((roomError net \<noteq> None \<or> (select_rooms DEFAULT_ROOM_SLUG (srv w) = [] \<and> createError net \<noteq> None)) \<and>
      defaultRoom (chat w) = None \<longrightarrow>
        input_disabled (chat (initializeChat net w)))"
proof -
  let ?w = "initializeChat net w"
  have created: "\<exists>room. defaultRoom (chat ?w) = Some room \<and>
           room_name room = DEFAULT_ROOM_NAME \<and> room_slug room = DEFAULT_ROOM_SLUG \<and>
           chat_rooms (srv ?w) = chat_rooms (srv w) @ [room]"
    if "roomError net = None" "select_rooms DEFAULT_ROOM_SLUG (srv w) = []" "createError net = None"
    using initializeChat_created [OF assms that] by simp
  have found: "defaultRoom (chat ?w) = Some found \<and> room_slug found = DEFAULT_ROOM_SLUG \<and> srv ?w = srv w"
    if "roomError net = None" "select_rooms DEFAULT_ROOM_SLUG (srv w) = found # rest"
    using initializeChat_found [OF assms that] that(2)
      select_rooms_slug [of found DEFAULT_ROOM_SLUG "srv w"]
    by simp
  have second: "\<exists>room2. defaultRoom (chat (initializeChat net2 w2)) = Some room2 \<and>
           room_slug room2 = DEFAULT_ROOM_SLUG \<and> srv (initializeChat net2 w2) = srv ?w"
    if "roomError net = None"
      "select_rooms DEFAULT_ROOM_SLUG (srv w) = [] \<longrightarrow> createError net = None"
      "username (chat w2) \<noteq> []" "srv w2 = srv ?w" "roomError net2 = None"
  proof -
    from initializeChat_resolved [OF assms that(1,2)] that(4)
    obtain r rs where rs: "select_rooms DEFAULT_ROOM_SLUG (srv w2) = r # rs"
      by (cases "select_rooms DEFAULT_ROOM_SLUG (srv w2)") simp_all
    then have "room_slug r = DEFAULT_ROOM_SLUG"
      using select_rooms_slug [of r DEFAULT_ROOM_SLUG "srv w2"] by simp
    with initializeChat_found [OF that(3,5) rs] that(4) show ?thesis
      by simp
  qed
  have lookup: "chat ?w = (chat w)\<lparr>isLoading := False\<rparr> \<and> srv ?w = srv w \<and>
        requests ?w = requests w @ [SelectRooms DEFAULT_ROOM_SLUG] \<and>
        toasts ?w = toasts w @ [Toast ''Error'' ''Failed to load the chat. Please try again.'' True]"
    if "roomError net = Some e"
    using initializeChat_lookup_failed [OF assms that] by simp
  have create: "chat ?w = (chat w)\<lparr>isLoading := False\<rparr> \<and> srv ?w = srv w \<and>
        requests ?w
          = requests w @ [SelectRooms DEFAULT_ROOM_SLUG, InsertRoom DEFAULT_ROOM_NAME DEFAULT_ROOM_SLUG] \<and>
        toasts ?w = toasts w @ [Toast ''Error'' ''Failed to load the chat. Please try again.'' True]"
    if "roomError net = None" "select_rooms DEFAULT_ROOM_SLUG (srv w) = []" "createError net = Some e"
    using initializeChat_create_failed [OF assms that] by simp
  have fatal: "input_disabled (chat ?w)"
    if "roomError net \<noteq> None \<or> (select_rooms DEFAULT_ROOM_SLUG (srv w) = [] \<and> createError net \<noteq> None)"
      "defaultRoom (chat w) = None"
  proof (cases "roomError net")
    case (Some e1)
    with initializeChat_lookup_failed [OF assms Some] that(2) show ?thesis
      by (simp add: input_disabled_def)
  next
    case None
    with that(1) obtain e2 where "select_rooms DEFAULT_ROOM_SLUG (srv w) = []" "createError net = Some e2"
      by auto
    with initializeChat_create_failed [OF assms None this] that(2) show ?thesis
      by (simp add: input_disabled_def)
  qed
  from created found second lookup create fatal show ?thesis
    by blast
qed

theorem resolve_default_room_witness:
  "username (chat (new_world ''ann'' empty_server)) \<noteq> [] \<and>
   select_rooms DEFAULT_ROOM_SLUG (srv (new_world ''ann'' empty_server)) = [] \<and>
   defaultRoom (chat (initializeChat
       \<lparr>roomError = None, createError = None, messageError = None,
        new_room_id = ''r1'', new_room_created_at = ''2024-05-01T09:00:00Z''\<rparr>
       (new_world ''ann'' empty_server))) = Some public_room \<and>
   chat_rooms (srv (initializeChat
       \<lparr>roomError = None, createError = None, messageError = None,
        new_room_id = ''r1'', new_room_created_at = ''2024-05-01T09:00:00Z''\<rparr>
       (new_world ''ann'' empty_server))) = [public_room] \<and>
   defaultRoom (chat (initializeChat
       \<lparr>roomError = None, createError = None, messageError = None,
        new_room_id = ''r2'', new_room_created_at = ''2024-05-01T09:30:00Z''\<rparr>
       (new_world ''bob'' \<lparr>chat_rooms = [public_room], public_messages = []\<rparr>))) = Some public_room \<and>
   requests (initializeChat
       \<lparr>roomError = Some (Error ''offline''), createError = None, messageError = None,
        new_room_id = ''r1'', new_room_created_at = ''2024-05-01T09:00:00Z''\<rparr>
       (new_world ''ann'' empty_server)) = [SelectRooms ''public''] \<and>
   input_disabled (chat (initializeChat
       \<lparr>roomError = Some (Error ''offline''), createError = None, messageError = None,
        new_room_id = ''r1'', new_room_created_at = ''2024-05-01T09:00:00Z''\<rparr>
       (new_world ''ann'' empty_server))) \<and>
   select_rooms DEFAULT_ROOM_SLUG (srv (new_world ''bob'' \<lparr>chat_rooms = [public_room], public_messages = []\<rparr>))
     = [public_room] \<and>
   srv (initializeChat
       \<lparr>roomError = None, createError = None, messageError = None,
        new_room_id = ''r2'', new_room_created_at = ''2024-05-01T09:30:00Z''\<rparr>
       (new_world ''bob'' \<lparr>chat_rooms = [public_room], public_messages = []\<rparr>))
     = \<lparr>chat_rooms = [public_room], public_messages = []\<rparr> \<and>
   requests (initializeChat
       \<lparr>roomError = None, createError = Some (Error ''denied''), messageError = None,
        new_room_id = ''r1'', new_room_created_at = ''2024-05-01T09:00:00Z''\<rparr>
       (new_world ''ann'' empty_server))
     = [SelectRooms ''public'', InsertRoom ''Public Chat Room'' ''public'']"
  using resolve_default_room [where w = "new_world ''ann'' empty_server"
      and net = "\<lparr>roomError = None, createError = None, messageError = None,
        new_room_id = ''r1'', new_room_created_at = ''2024-05-01T09:00:00Z''\<rparr>"
      and ?w2.0 = "new_world ''bob'' \<lparr>chat_rooms = [public_room], public_messages = []\<rparr>"
      and ?net2.0 = "\<lparr>roomError = None, createError = None, messageError = None,
        new_room_id = ''r2'', new_room_created_at = ''2024-05-01T09:30:00Z''\<rparr>"
      and e = "Error ''offline''" and found = public_room and rest = "[]"]
    resolve_default_room [where w = "new_world ''ann'' empty_server"
      and net = "\<lparr>roomError = Some (Error ''offline''), createError = None, messageError = None,
        new_room_id = ''r1'', new_room_created_at = ''2024-05-01T09:00:00Z''\<rparr>"
      and ?w2.0 = "new_world ''bob'' \<lparr>chat_rooms = [public_room], public_messages = []\<rparr>"
      and ?net2.0 = "\<lparr>roomError = None, createError = None, messageError = None,
        new_room_id = ''r2'', new_room_created_at = ''2024-05-01T09:30:00Z''\<rparr>"
      and e = "Error ''offline''" and found = public_room and rest = "[]"]
    resolve_default_room [where w = "new_world ''bob'' \<lparr>chat_rooms = [public_room], public_messages = []\<rparr>"
      and net = "\<lparr>roomError = None, createError = None, messageError = None,
        new_room_id = ''r2'', new_room_created_at = ''2024-05-01T09:30:00Z''\<rparr>"
      and ?w2.0 = "new_world ''ann'' \<lparr>chat_rooms = [public_room], public_messages = []\<rparr>"
      and ?net2.0 = "\<lparr>roomError = None, createError = None, messageError = None,
        new_room_id = ''r3'', new_room_created_at = ''2024-05-01T09:40:00Z''\<rparr>"
      and e = "Error ''offline''" and found = public_room and rest = "[]"]
    resolve_default_room [where w = "new_world ''ann'' empty_server"
      and net = "\<lparr>roomError = None, createError = Some (Error ''denied''), messageError = None,
        new_room_id = ''r1'', new_room_created_at = ''2024-05-01T09:00:00Z''\<rparr>"
      and ?w2.0 = "new_world ''bob'' \<lparr>chat_rooms = [public_room], public_messages = []\<rparr>"
      and ?net2.0 = "\<lparr>roomError = None, createError = None, messageError = None,
        new_room_id = ''r2'', new_room_created_at = ''2024-05-01T09:30:00Z''\<rparr>"
      and e = "Error ''denied''" and found = public_room and rest = "[]"]
  by (simp add: new_world_def empty_server_def public_room_def select_rooms_def
      DEFAULT_ROOM_SLUG_def DEFAULT_ROOM_NAME_def initializeChat_def load_and_subscribe_def
      insert_room_def select_messages_def input_disabled_def Let_def)

end
